theory Spec2Isabelle
  imports Main "HOL-Library.Sublist"
begin

section \<open>cguess.py: the dependency resolution engine\<close>

text \<open>
  A shallow embedding of \<^verbatim>\<open>src/cguess.py\<close>. Python \<^verbatim>\<open>str\<close> values are modelled as
  \<^typ>\<open>string\<close>; one \<^typ>\<open>char\<close> stands for one code point below 256, and the character
  classes of Python's \<^verbatim>\<open>re\<close> module are written out for that range.
\<close>

subsection \<open>Character classes and string helpers\<close>

text \<open>\<^verbatim>\<open>\s\<close> on a \<^verbatim>\<open>str\<close> pattern and \<^verbatim>\<open>str.isspace\<close>, for code points below 256.\<close>

definition py_isspace :: "char \<Rightarrow> bool" where
  "py_isspace c = (c \<in> set [CHR 0x09, CHR 0x0A, CHR 0x0B, CHR 0x0C, CHR 0x0D,
                             CHR 0x1C, CHR 0x1D, CHR 0x1E, CHR 0x1F, CHR 0x20,
                             CHR 0x85, CHR 0xA0])"

text \<open>\<^verbatim>\<open>s.startswith(p)\<close> and \<^verbatim>\<open>s.endswith(p)\<close>.\<close>

definition startswith :: "string \<Rightarrow> string \<Rightarrow> bool" where
  "startswith s p = (take (length p) s = p)"

definition endswith :: "string \<Rightarrow> string \<Rightarrow> bool" where
  "endswith s p = (length p \<le> length s \<and> drop (length s - length p) s = p)"

subsection \<open>Header Extractor\<close>

text \<open>
  A header reference is the pair \<^verbatim>\<open>(header_name, quote_type)\<close> that
  \<^verbatim>\<open>extract_headers_from_file\<close> adds to its result.
\<close>

type_synonym header_ref = "string \<times> char"

text \<open>
  \<^verbatim>\<open>INCLUDE_REGEX.match(line)\<close> for
  \<^verbatim>\<open>^\s*#\s*include\s*([<"])([^>"]+)[>"]\<close>, returning \<^verbatim>\<open>match.groups()\<close>, that is
  (quote character, header name). Every quantifier of the pattern is greedy and is followed
  by an atom that none of the characters it consumed can match, so the greedy choice is
  the only way to match and no backtracking alternative exists.
\<close>

definition name_char :: "char \<Rightarrow> bool" where
  "name_char c = (c \<noteq> CHR ''>'' \<and> c \<noteq> CHR 0x22)"

definition INCLUDE_REGEX_match :: "string \<Rightarrow> (char \<times> string) option" where
  "INCLUDE_REGEX_match line =
     (case dropWhile py_isspace line of
        [] \<Rightarrow> None
      | h # r1 \<Rightarrow>
          if h \<noteq> CHR ''#'' then None
          else let r2 = dropWhile py_isspace r1 in
            if \<not> startswith r2 ''include'' then None
            else (case dropWhile py_isspace (drop 7 r2) of
                    [] \<Rightarrow> None
                  | q # r3 \<Rightarrow>
                      if q \<noteq> CHR ''<'' \<and> q \<noteq> CHR 0x22 then None
                      else let header_name = takeWhile name_char r3;
                               r4 = dropWhile name_char r3
                           in if header_name = [] \<or> r4 = [] then None
                              else Some (q, header_name)))"

text \<open>
  Iterating over a text file yields its lines, each with its terminating newline (the last
  one possibly without). The argument is the decoded text of the file.
\<close>

fun readlines :: "string \<Rightarrow> string list" where
  "readlines [] = []"
| "readlines (c # cs) =
     (if c = CHR 0x0A then [c] # readlines cs
      else (case readlines cs of [] \<Rightarrow> [[c]] | l # ls \<Rightarrow> (c # l) # ls))"

text \<open>
  A Python \<^verbatim>\<open>set\<close> that the program iterates over is modelled as a duplicate-free list in
  order of first insertion; \<^verbatim>\<open>s.add(x)\<close> is \<open>set_add\<close>.
\<close>

definition set_add :: "'a \<Rightarrow> 'a list \<Rightarrow> 'a list" where
  "set_add x xs = (if x \<in> set xs then xs else xs @ [x])"

definition add_header_of_line :: "header_ref list \<Rightarrow> string \<Rightarrow> header_ref list" where
  "add_header_of_line headers line =
     (case INCLUDE_REGEX_match line of
        None \<Rightarrow> headers
      | Some (quote_type, header_name) \<Rightarrow> set_add (header_name, quote_type) headers)"

definition extract_headers_from_text :: "string \<Rightarrow> header_ref list" where
  "extract_headers_from_text content = foldl add_header_of_line [] (readlines content)"

subsection \<open>The world outside the program\<close>

text \<open>
  What a run reads from its environment is a parameter of the model, fixed during a run:
  file contents, the directory walk, file existence, path normalisation and the outcome
  of every external command.
\<close>

datatype proc_outcome =
    Completed int string    \<comment> \<open>the process ran: exit status and decoded standard output\<close>
  | FileNotFound            \<comment> \<open>\<^verbatim>\<open>subprocess.run\<close> raised \<^verbatim>\<open>FileNotFoundError\<close>\<close>
  | OtherFailure            \<comment> \<open>\<^verbatim>\<open>subprocess.run\<close> raised any other exception\<close>

record world =
  read_text :: "string \<Rightarrow> string option"
    \<comment> \<open>\<^verbatim>\<open>open(path, 'r', encoding='utf-8', errors='ignore').read()\<close>; \<open>None\<close> when it raises\<close>
  read_text_strict :: "string \<Rightarrow> string option"
    \<comment> \<open>\<^verbatim>\<open>open(path, 'r', encoding='utf-8').read()\<close>; \<open>None\<close> when it raises\<close>
  os_walk :: "string \<Rightarrow> (string \<times> string list) list"
    \<comment> \<open>\<^verbatim>\<open>os.walk(start_dir)\<close>: the pairs (root, files) in the order yielded\<close>
  os_path_exists :: "string \<Rightarrow> bool"
  os_path_abspath :: "string \<Rightarrow> string"
  subprocess_run :: "string list \<Rightarrow> proc_outcome"

datatype error =
    UncaughtSubprocessError   \<comment> \<open>an exception of \<^verbatim>\<open>subprocess.run\<close> that \<^verbatim>\<open>run_command\<close> does not catch\<close>
  | IndexError

subsection \<open>Paths\<close>

text \<open>\<^verbatim>\<open>s.rfind(c)\<close> for a single character: the last index of \<open>c\<close>, or \<open>-1\<close>.\<close>

definition rfind :: "char \<Rightarrow> string \<Rightarrow> int" where
  "rfind c s =
     (if c \<in> set s then int (length s) - 1 - int (length (takeWhile (\<lambda>x. x \<noteq> c) (rev s)))
      else - 1)"

text \<open>\<^verbatim>\<open>s.rstrip('/')\<close>.\<close>

definition rstrip_sep :: "string \<Rightarrow> string" where
  "rstrip_sep s = rev (dropWhile (\<lambda>c. c = CHR ''/'') (rev s))"

text \<open>\<^verbatim>\<open>posixpath.dirname\<close>.\<close>

definition os_path_dirname :: "string \<Rightarrow> string" where
  "os_path_dirname p =
     (let i = nat (rfind CHR ''/'' p + 1);
          head = take i p
      in if head \<noteq> [] \<and> head \<noteq> replicate (length head) CHR ''/'' then rstrip_sep head
         else head)"

text \<open>
  \<^verbatim>\<open>posixpath.splitext\<close>: the extension starts at the last dot, provided that dot lies in
  the last path component and is preceded there by a character that is not a dot.
\<close>

definition os_path_splitext :: "string \<Rightarrow> string \<times> string" where
  "os_path_splitext p =
     (let sepIndex = rfind CHR ''/'' p;
          dotIndex = rfind CHR ''.'' p
      in if dotIndex > sepIndex \<and>
            (\<exists>c \<in> set (take (nat (dotIndex - (sepIndex + 1))) (drop (nat (sepIndex + 1)) p)).
               c \<noteq> CHR ''.'')
         then (take (nat dotIndex) p, drop (nat dotIndex) p)
         else (p, []))"

text \<open>\<^verbatim>\<open>posixpath.join(a, b)\<close> for two components.\<close>

definition os_path_join :: "string \<Rightarrow> string \<Rightarrow> string" where
  "os_path_join a b =
     (if startswith b ''/'' then b
      else if a = [] \<or> endswith a ''/'' then a @ b
      else a @ ''/'' @ b)"

subsection \<open>Local Filesystem Header Locator\<close>

fun find_in_walk :: "string \<Rightarrow> (string \<times> string list) list \<Rightarrow> string option" where
  "find_in_walk filename [] = None"
| "find_in_walk filename ((root, files) # rest) =
     (if filename \<in> set files then Some (os_path_join root filename)
      else find_in_walk filename rest)"

definition find_local_file :: "world \<Rightarrow> string \<Rightarrow> string \<Rightarrow> string option" where
  "find_local_file w filename start_dir = find_in_walk filename (os_walk w start_dir)"

definition extract_headers_from_file :: "world \<Rightarrow> string \<Rightarrow> header_ref list" where
  "extract_headers_from_file w file_path =
     (case read_text w file_path of
        None \<Rightarrow> []
      | Some content \<Rightarrow> extract_headers_from_text content)"

subsection \<open>Symbol Sampler and candidate scoring\<close>

text \<open>\<^verbatim>\<open>\w\<close> on a \<^verbatim>\<open>str\<close> pattern, for code points below 256.\<close>

definition py_isword :: "char \<Rightarrow> bool" where
  "py_isword c =
     (let n = (of_char c :: nat)
      in (48 \<le> n \<and> n \<le> 57) \<or> (65 \<le> n \<and> n \<le> 90) \<or> n = 95 \<or> (97 \<le> n \<and> n \<le> 122)
         \<or> n \<in> set [170, 178, 179, 181, 185, 186, 188, 189, 190]
         \<or> (192 \<le> n \<and> n \<le> 214) \<or> (216 \<le> n \<and> n \<le> 246) \<or> 248 \<le> n)"

text \<open>
  \<^verbatim>\<open>\b\<close> between the character before the position (\<open>None\<close> at the start of the text) and
  the text from the position on.
\<close>

definition word_boundary :: "char option \<Rightarrow> string \<Rightarrow> bool" where
  "word_boundary prev rest =
     ((case prev of None \<Rightarrow> False | Some c \<Rightarrow> py_isword c)
      \<noteq> (case rest of [] \<Rightarrow> False | c # _ \<Rightarrow> py_isword c))"

text \<open>The classes \<^verbatim>\<open>[a-zA-Z_]\<close> and \<^verbatim>\<open>[a-zA-Z0-9_]\<close>.\<close>

definition ident_start :: "char \<Rightarrow> bool" where
  "ident_start c =
     (let n = (of_char c :: nat)
      in (65 \<le> n \<and> n \<le> 90) \<or> n = 95 \<or> (97 \<le> n \<and> n \<le> 122))"

definition ident_char :: "char \<Rightarrow> bool" where
  "ident_char c = (ident_start c \<or> (let n = (of_char c :: nat) in 48 \<le> n \<and> n \<le> 57))"

text \<open>
  \<^verbatim>\<open>symbol_regex.finditer(content)\<close> for \<^verbatim>\<open>\b([a-zA-Z_][a-zA-Z0-9_]*)\s*\(\<close>: the first groups
  of the non-overlapping matches, left to right. After a match the scan resumes behind the
  parenthesis; a shorter identifier or fewer spaces can never match where the greedy choice
  fails, because the next character is then an identifier character or a space.
\<close>

function symbol_scan :: "char option \<Rightarrow> string \<Rightarrow> string list" where
  "symbol_scan prev [] = []"
| "symbol_scan prev (c # cs) =
     (if word_boundary prev (c # cs) \<and> ident_start c
      then (case dropWhile py_isspace (dropWhile ident_char cs) of
              [] \<Rightarrow> symbol_scan (Some c) cs
            | p # rest \<Rightarrow>
                if p = CHR ''(''
                then (c # takeWhile ident_char cs) # symbol_scan (Some p) rest
                else symbol_scan (Some c) cs)
      else symbol_scan (Some c) cs)"
  by pat_completeness auto
termination
proof (relation "measure (\<lambda>(prev, s). length s)", goal_cases)
  case 1
  show ?case by simp
next
  case (2 prev c cs)
  show ?case by simp
next
  case (3 prev c cs p rest)
  have "length (p # rest) \<le> length cs"
    unfolding 3(2)[symmetric]
    by (meson length_dropWhile_le le_trans)
  then show ?case by simp
next
  case (4 prev c cs p rest)
  show ?case by simp
next
  case (5 prev c cs)
  show ?case by simp
qed

text \<open>\<^verbatim>\<open>set(xs)\<close>: the elements of a list, each once, in order of first occurrence.\<close>

definition py_set :: "'a list \<Rightarrow> 'a list" where
  "py_set xs = foldl (\<lambda>s x. set_add x s) [] xs"

definition analyze_source_for_symbols :: "world \<Rightarrow> string \<Rightarrow> string list" where
  "analyze_source_for_symbols w file_path =
     (case read_text_strict w file_path of
        None \<Rightarrow> []
      | Some content \<Rightarrow> py_set (symbol_scan None content))"

text \<open>
  \<^verbatim>\<open>re.search(r'\b' + re.escape(symbol) + r'\b', header_content)\<close>: the symbol occurs
  literally somewhere with a word boundary on each side.
\<close>

definition word_match_here :: "string \<Rightarrow> char option \<Rightarrow> string \<Rightarrow> bool" where
  "word_match_here symbol prev rest =
     (word_boundary prev rest \<and> startswith rest symbol \<and>
      word_boundary (if symbol = [] then prev else Some (last symbol))
                    (drop (length symbol) rest))"

fun word_search_from :: "string \<Rightarrow> char option \<Rightarrow> string \<Rightarrow> bool" where
  "word_search_from symbol prev [] = word_match_here symbol prev []"
| "word_search_from symbol prev (c # cs) =
     (word_match_here symbol prev (c # cs) \<or> word_search_from symbol (Some c) cs)"

definition word_search :: "string \<Rightarrow> string \<Rightarrow> bool" where
  "word_search symbol content = word_search_from symbol None content"

definition score_header_match :: "world \<Rightarrow> string list \<Rightarrow> string \<Rightarrow> int" where
  "score_header_match w source_symbols header_path =
     (case read_text w header_path of
        None \<Rightarrow> 0
      | Some header_content \<Rightarrow>
          int (length (filter (\<lambda>symbol. word_search symbol header_content) source_symbols)))"

text \<open>
  \<^verbatim>\<open>max(iterable, key=f)\<close> on a non-empty list: the running maximum is replaced only by an
  item whose key is strictly greater.
\<close>

fun py_max_from :: "('a \<Rightarrow> int) \<Rightarrow> 'a \<Rightarrow> 'a list \<Rightarrow> 'a" where
  "py_max_from f best [] = best"
| "py_max_from f best (x # xs) = py_max_from f (if f x > f best then x else best) xs"

text \<open>A candidate is the dictionary \<^verbatim>\<open>{'package': ..., 'full_path': ...}\<close>.\<close>

record candidate =
  package :: string
  full_path :: string

subsection \<open>Running external commands\<close>

text \<open>\<^verbatim>\<open>s.strip()\<close>.\<close>

definition py_strip :: "string \<Rightarrow> string" where
  "py_strip s = rev (dropWhile py_isspace (rev (dropWhile py_isspace s)))"

text \<open>
  \<^verbatim>\<open>run_command\<close>: with \<^verbatim>\<open>check=True\<close> a non-zero exit status raises
  \<^verbatim>\<open>CalledProcessError\<close>, which is caught together with \<^verbatim>\<open>FileNotFoundError\<close>; any other
  exception leaves the function.
\<close>

definition run_command :: "world \<Rightarrow> string list \<Rightarrow> error + string" where
  "run_command w command =
     (case subprocess_run w command of
        Completed returncode stdout \<Rightarrow>
          if returncode = 0 then Inr (py_strip stdout) else Inr []
      | FileNotFound \<Rightarrow> Inr []
      | OtherFailure \<Rightarrow> Inl UncaughtSubprocessError)"

text \<open>
  \<^verbatim>\<open>s.splitlines()\<close>, with the line boundaries that exist below code point 256;
  \<^verbatim>\<open>\r\n\<close> counts as one boundary. The flag says that the previous character was a
  carriage return; \<open>cur\<close> is the current line, reversed.
\<close>

definition is_linebreak :: "char \<Rightarrow> bool" where
  "is_linebreak c = (c \<in> set [CHR 0x0A, CHR 0x0B, CHR 0x0C, CHR 0x0D,
                               CHR 0x1C, CHR 0x1D, CHR 0x1E, CHR 0x85])"

fun splitlines_aux :: "bool \<Rightarrow> string \<Rightarrow> string \<Rightarrow> string list" where
  "splitlines_aux after_cr cur [] = (if cur = [] then [] else [rev cur])"
| "splitlines_aux after_cr cur (c # cs) =
     (if c = CHR 0x0A \<and> after_cr then splitlines_aux False cur cs
      else if is_linebreak c then rev cur # splitlines_aux (c = CHR 0x0D) [] cs
      else splitlines_aux False (c # cur) cs)"

definition splitlines :: "string \<Rightarrow> string list" where
  "splitlines s = splitlines_aux False [] s"

text \<open>\<^verbatim>\<open>sub in s\<close> for strings.\<close>

fun contains :: "string \<Rightarrow> string \<Rightarrow> bool" where
  "contains [] sub = (sub = [])"
| "contains (c # cs) sub = (startswith (c # cs) sub \<or> contains cs sub)"

text \<open>
  \<^verbatim>\<open>LIB_REGEX.search(file_path)\<close> for \<^verbatim>\<open>/lib([^/]+)\.so\<close>, returning \<^verbatim>\<open>match.group(1)\<close>.
  After \<^verbatim>\<open>/lib\<close> the group is taken from the run of characters up to the next slash; being
  greedy, it ends at the last place in that run where \<^verbatim>\<open>.so\<close> follows. The search returns
  the match at the leftmost position that has one.
\<close>

definition lib_group :: "string \<Rightarrow> string option" where
  "lib_group rest =
     (let seg = takeWhile (\<lambda>c. c \<noteq> CHR ''/'') rest;
          ks = filter (\<lambda>k. startswith (drop k seg) ''.so'') [1..<length seg]
      in if ks = [] then None else Some (take (last ks) seg))"

fun LIB_REGEX_search :: "string \<Rightarrow> string option" where
  "LIB_REGEX_search [] = None"
| "LIB_REGEX_search (c # cs) =
     (if startswith (c # cs) ''/lib''
      then (case lib_group (drop 3 cs) of
              Some g \<Rightarrow> Some g
            | None \<Rightarrow> LIB_REGEX_search cs)
      else LIB_REGEX_search cs)"

text \<open>
  The loop body shared by the three \<^verbatim>\<open>find_package_info\<close> methods: the two Python sets are
  the pair \<open>(include_paths, libs)\<close>.
\<close>

definition is_header_file :: "string \<Rightarrow> bool" where
  "is_header_file file_path =
     (contains file_path ''/usr/include/'' \<and>
      (endswith file_path ''.h'' \<or> endswith file_path ''.hpp'' \<or> endswith file_path ''.hh''))"

definition add_file_info :: "string list \<times> string list \<Rightarrow> string \<Rightarrow> string list \<times> string list" where
  "add_file_info acc file_path =
     (let include_paths = (if is_header_file file_path
                           then set_add (os_path_dirname file_path) (fst acc) else fst acc);
          libs = (case LIB_REGEX_search file_path of
                    None \<Rightarrow> snd acc
                  | Some g \<Rightarrow> set_add g (snd acc))
      in (include_paths, libs))"

subsection \<open>Package Backend\<close>

datatype PackageManager = DebianManager | RedHatManager | ArchManager

text \<open>\<^verbatim>\<open>any(c['full_path'] == full_path for c in candidates)\<close>.\<close>

definition has_full_path :: "candidate list \<Rightarrow> string \<Rightarrow> bool" where
  "has_full_path candidates fp = (\<exists>c \<in> set candidates. full_path c = fp)"

text \<open>\<^verbatim>\<open>DebianManager.find_header_candidates\<close>: the body of the loop over the output lines.\<close>

definition debian_add_line :: "candidate list \<Rightarrow> string \<Rightarrow> candidate list" where
  "debian_add_line candidates match_line =
     (let last_colon_index = rfind CHR '':'' match_line
      in if last_colon_index = - 1 then candidates
         else let fp = py_strip (drop (nat (last_colon_index + 1)) match_line);
                  package_name = takeWhile (\<lambda>c. c \<noteq> CHR '':'')
                                   (take (nat last_colon_index) match_line)
              in if \<not> has_full_path candidates fp
                 then candidates @ [\<lparr>package = package_name, full_path = fp\<rparr>]
                 else candidates)"

definition debian_find_header_candidates :: "world \<Rightarrow> string \<Rightarrow> error + candidate list" where
  "debian_find_header_candidates w header =
     (case run_command w [''dpkg'', ''-S'', ''*/'' @ header] of
        Inl e \<Rightarrow> Inl e
      | Inr output \<Rightarrow>
          if output = [] then Inr []
          else Inr (foldl debian_add_line [] (splitlines output)))"

definition debian_find_package_info :: "world \<Rightarrow> string \<Rightarrow> error + (string list \<times> string list)" where
  "debian_find_package_info w package_name =
     (case run_command w [''dpkg'', ''-L'', package_name] of
        Inl e \<Rightarrow> Inl e
      | Inr file_list \<Rightarrow> Inr (foldl add_file_info ([], []) (splitlines file_list)))"

text \<open>
  \<^verbatim>\<open>s.rsplit('-', 2)[0]\<close>: what precedes the last but one hyphen, or the last hyphen when
  there is only one, or the whole string.
\<close>

definition before_last :: "char \<Rightarrow> string \<Rightarrow> string" where
  "before_last c s = take (nat (rfind c s)) s"

definition rsplit2_first :: "string \<Rightarrow> string" where
  "rsplit2_first s =
     (if CHR ''-'' \<notin> set s then s
      else let a = before_last CHR ''-'' s
           in if CHR ''-'' \<notin> set a then a else before_last CHR ''-'' a)"

definition redhat_add_file :: "string \<Rightarrow> string \<Rightarrow> candidate list \<Rightarrow> string \<Rightarrow> candidate list" where
  "redhat_add_file header package_name candidates file_path =
     (if endswith file_path (''/'' @ header)
      then candidates @ [\<lparr>package = package_name, full_path = file_path\<rparr>]
      else candidates)"

definition redhat_list_candidates :: "world \<Rightarrow> string \<Rightarrow> string \<Rightarrow> error + candidate list" where
  "redhat_list_candidates w header package_name =
     (case run_command w [''rpm'', ''-ql'', package_name] of
        Inl e \<Rightarrow> Inl e
      | Inr file_list \<Rightarrow>
          Inr (foldl (redhat_add_file header package_name) [] (splitlines file_list)))"

definition redhat_find_header_candidates :: "world \<Rightarrow> string \<Rightarrow> error + candidate list" where
  "redhat_find_header_candidates w header =
     (case run_command w [''rpm'', ''-qf'', ''/usr/include/'' @ header] of
        Inl e \<Rightarrow> Inl e
      | Inr output \<Rightarrow>
          if output = [] \<or> contains output ''not owned''
          then (case run_command w [''repoquery'', ''--whatprovides'', ''*/'' @ header] of
                  Inl e \<Rightarrow> Inl e
                | Inr output2 \<Rightarrow>
                    if output2 = [] then Inr []
                    else (case splitlines output2 of
                            [] \<Rightarrow> Inl IndexError
                          | first_line # _ \<Rightarrow>
                              redhat_list_candidates w header (rsplit2_first first_line)))
          else redhat_list_candidates w header (py_strip output))"

definition redhat_find_package_info :: "world \<Rightarrow> string \<Rightarrow> error + (string list \<times> string list)" where
  "redhat_find_package_info w package_name =
     (case run_command w [''rpm'', ''-ql'', package_name] of
        Inl e \<Rightarrow> Inl e
      | Inr file_list \<Rightarrow> Inr (foldl add_file_info ([], []) (splitlines file_list)))"

text \<open>
  \<^verbatim>\<open>a, b = line.split(sep, 1)\<close>: \<open>None\<close> when the separator does not occur (the unpacking
  raises \<^verbatim>\<open>ValueError\<close>, which the callers catch and skip the line).
\<close>

definition split_once :: "char \<Rightarrow> string \<Rightarrow> (string \<times> string) option" where
  "split_once sep line =
     (if sep \<in> set line
      then Some (takeWhile (\<lambda>c. c \<noteq> sep) line, tl (dropWhile (\<lambda>c. c \<noteq> sep) line))
      else None)"

definition arch_add_line :: "string \<Rightarrow> candidate list \<Rightarrow> string \<Rightarrow> candidate list" where
  "arch_add_line header candidates line =
     (case split_once CHR 0x09 line of
        None \<Rightarrow> candidates
      | Some (package_name, file_path) \<Rightarrow>
          if endswith file_path (''/'' @ header) \<and> \<not> has_full_path candidates file_path
          then candidates @ [\<lparr>package = package_name, full_path = file_path\<rparr>]
          else candidates)"

definition arch_find_header_candidates :: "world \<Rightarrow> string \<Rightarrow> error + candidate list" where
  "arch_find_header_candidates w header =
     (case run_command w [''pkgfile'', ''-s'', header] of
        Inl e \<Rightarrow> Inl e
      | Inr output \<Rightarrow>
          if output = [] then Inr []
          else Inr (foldl (arch_add_line header) [] (splitlines output)))"

definition arch_add_file_info :: "string list \<times> string list \<Rightarrow> string \<Rightarrow> string list \<times> string list" where
  "arch_add_file_info acc line =
     (case split_once CHR '' '' line of
        None \<Rightarrow> acc
      | Some (_, file_path) \<Rightarrow> add_file_info acc file_path)"

definition arch_find_package_info :: "world \<Rightarrow> string \<Rightarrow> error + (string list \<times> string list)" where
  "arch_find_package_info w package_name =
     (case run_command w [''pacman'', ''-Ql'', package_name] of
        Inl e \<Rightarrow> Inl e
      | Inr file_list \<Rightarrow> Inr (foldl arch_add_file_info ([], []) (splitlines file_list)))"

text \<open>Method dispatch on the backend object \<^verbatim>\<open>pm\<close>.\<close>

fun pm_find_header_candidates :: "PackageManager \<Rightarrow> world \<Rightarrow> string \<Rightarrow> error + candidate list" where
  "pm_find_header_candidates DebianManager w header = debian_find_header_candidates w header"
| "pm_find_header_candidates RedHatManager w header = redhat_find_header_candidates w header"
| "pm_find_header_candidates ArchManager w header = arch_find_header_candidates w header"

fun pm_find_package_info :: "PackageManager \<Rightarrow> world \<Rightarrow> string \<Rightarrow> error + (string list \<times> string list)" where
  "pm_find_package_info DebianManager w package_name = debian_find_package_info w package_name"
| "pm_find_package_info RedHatManager w package_name = redhat_find_package_info w package_name"
| "pm_find_package_info ArchManager w package_name = arch_find_package_info w package_name"

subsection \<open>Lookup Cache\<close>

text \<open>
  The two tables of the SQLite store are maps from the primary key
  \<^verbatim>\<open>(distro_id, name)\<close> to the remaining columns. A JSON column is represented by the value
  it decodes to: \<^verbatim>\<open>json.loads(json.dumps(v)) == v\<close> for the lists of strings and lists of
  string dictionaries stored here. Database errors are not modelled.
\<close>

record Cache =
  enabled :: bool
  distro_id :: string
  system_headers :: "string \<times> string \<Rightarrow> candidate list option"
  packages :: "string \<times> string \<Rightarrow> (string list \<times> string list) option"

text \<open>\<^verbatim>\<open>Cache.get\<close> and \<^verbatim>\<open>Cache.set\<close>, one definition for each branch on \<^verbatim>\<open>table\<close>.\<close>

definition Cache_get_system_headers :: "Cache \<Rightarrow> string \<Rightarrow> candidate list option" where
  "Cache_get_system_headers c key =
     (if \<not> enabled c then None else system_headers c (distro_id c, key))"

definition Cache_get_packages :: "Cache \<Rightarrow> string \<Rightarrow> (string list \<times> string list) option" where
  "Cache_get_packages c key =
     (if \<not> enabled c then None else packages c (distro_id c, key))"

definition Cache_set_system_headers :: "Cache \<Rightarrow> string \<Rightarrow> candidate list \<Rightarrow> Cache" where
  "Cache_set_system_headers c key v =
     (if \<not> enabled c then c
      else c\<lparr>system_headers := (system_headers c)((distro_id c, key) \<mapsto> v)\<rparr>)"

text \<open>
  The value is the pair of Python sets \<open>(include_paths, libs)\<close>; \<^verbatim>\<open>list(...)\<close> of each is
  stored.
\<close>

definition Cache_set_packages :: "Cache \<Rightarrow> string \<Rightarrow> string list \<times> string list \<Rightarrow> Cache" where
  "Cache_set_packages c key v =
     (if \<not> enabled c then c
      else c\<lparr>packages := (packages c)((distro_id c, key) \<mapsto> (fst v, snd v))\<rparr>)"

subsection \<open>Cached backend lookups\<close>

text \<open>
  The calls made to the Package Backend are recorded, in order, in a list that the model
  threads along with the cache.
\<close>

datatype backend_call = CandidatesFor string | InfoFor string

text \<open>
  \<^verbatim>\<open>find_header_candidates(header, pm, cache)\<close>. The test \<^verbatim>\<open>if cached_candidates:\<close> is false
  for \<^verbatim>\<open>None\<close> and for the empty list.
\<close>

definition find_header_candidates ::
  "world \<Rightarrow> string \<Rightarrow> PackageManager \<Rightarrow> Cache \<Rightarrow> backend_call list
   \<Rightarrow> error + (candidate list \<times> Cache \<times> backend_call list)" where
  "find_header_candidates w header pm c calls =
     (let query = (case pm_find_header_candidates pm w header of
                     Inl e \<Rightarrow> Inl e
                   | Inr candidates \<Rightarrow>
                       Inr (candidates, Cache_set_system_headers c header candidates,
                            calls @ [CandidatesFor header]))
      in case Cache_get_system_headers c header of
           None \<Rightarrow> query
         | Some cached_candidates \<Rightarrow>
             if cached_candidates \<noteq> [] then Inr (cached_candidates, c, calls) else query)"

text \<open>
  \<^verbatim>\<open>find_package_info(package_name, pm, cache)\<close>. A cached value is a tuple of two lists,
  which is true in a condition whatever the lists hold.
\<close>

definition find_package_info ::
  "world \<Rightarrow> string \<Rightarrow> PackageManager \<Rightarrow> Cache \<Rightarrow> backend_call list
   \<Rightarrow> error + ((string list \<times> string list) \<times> Cache \<times> backend_call list)" where
  "find_package_info w package_name pm c calls =
     (case Cache_get_packages c package_name of
        Some cached_info \<Rightarrow> Inr ((py_set (fst cached_info), py_set (snd cached_info)), c, calls)
      | None \<Rightarrow>
          (case pm_find_package_info pm w package_name of
             Inl e \<Rightarrow> Inl e
           | Inr info \<Rightarrow>
               Inr (info, Cache_set_packages c package_name info,
                    calls @ [InfoFor package_name])))"

subsection \<open>Resolution Engine\<close>

definition IGNORE_PACKAGES :: "string list" where
  "IGNORE_PACKAGES =
    [''libc6-dev'', ''glibc-devel'', ''gcc-libs'', ''libgcc'',
     ''libstdc++-11-dev'', ''libstdc++-devel'',
     ''linux-libc-dev'']"

definition CPP_STANDARD_HEADERS :: "string set" where
  "CPP_STANDARD_HEADERS = set
    [''algorithm'', ''any'', ''array'', ''atomic'', ''bit'', ''bitset'', ''charconv'',
     ''chrono'', ''codecvt'', ''compare'', ''complex'', ''concepts'', ''condition_variable'',
     ''coroutine'', ''deque'', ''exception'', ''execution'', ''filesystem'', ''format'',
     ''forward_list'', ''fstream'', ''functional'', ''future'', ''initializer_list'',
     ''iomanip'', ''ios'', ''iosfwd'', ''iostream'', ''istream'', ''iterator'', ''limits'',
     ''list'', ''locale'', ''map'', ''memory'', ''memory_resource'', ''mutex'', ''new'',
     ''numbers'', ''numeric'', ''optional'', ''ostream'', ''queue'', ''random'', ''ranges'',
     ''ratio'', ''regex'', ''scoped_allocator'', ''set'', ''shared_mutex'',
     ''source_location'', ''span'', ''sstream'', ''stack'', ''stdexcept'', ''streambuf'',
     ''string'', ''string_view'', ''syncstream'', ''system_error'', ''thread'', ''tuple'',
     ''type_traits'', ''typeindex'', ''typeinfo'', ''unordered_map'', ''unordered_set'',
     ''utility'', ''valarray'', ''variant'', ''vector'', ''version'',
     ''cassert'', ''cctype'', ''cerrno'', ''cfenv'', ''cfloat'', ''cinttypes'', ''ciso646'',
     ''climits'', ''clocale'', ''cmath'', ''csetjmp'', ''csignal'', ''cstdalign'',
     ''cstdarg'', ''cstdbool'', ''cstddef'', ''cstdint'', ''cstdio'', ''cstdlib'',
     ''cstring'', ''ctgmath'', ''ctime'', ''cuchar'', ''cwchar'', ''cwctype'',
     ''assert.h'', ''ctype.h'', ''errno.h'', ''fenv.h'', ''float.h'', ''inttypes.h'',
     ''iso646.h'', ''limits.h'', ''locale.h'', ''math.h'', ''setjmp.h'', ''signal.h'',
     ''stdalign.h'', ''stdarg.h'', ''stdbool.h'', ''stddef.h'', ''stdint.h'',
     ''stdio.h'', ''stdlib.h'', ''string.h'', ''tgmath.h'', ''time.h'', ''uchar.h'',
     ''wchar.h'', ''wctype.h'']"

text \<open>\<^verbatim>\<open>any(package.startswith(p) for p in IGNORE_PACKAGES)\<close>.\<close>

definition ignored_package :: "string \<Rightarrow> bool" where
  "ignored_package pkg = (\<exists>p \<in> set IGNORE_PACKAGES. startswith pkg p)"

text \<open>
  The local variables of \<^verbatim>\<open>main\<close> that the resolution loop reads and writes, together with
  the cache store and the record of backend calls. The accumulating sets are only added
  to and tested for membership, so they are plain sets.
\<close>

record state =
  all_source_files :: "string set"
  all_include_paths :: "string set"
  all_libs :: "string set"
  processed_system_packages :: "string set"
  processed_local_headers :: "string set"
  headers_to_process :: "header_ref list"
  cache :: Cache
  backend_calls :: "backend_call list"

text \<open>The body of \<^verbatim>\<open>for h in new_headers\<close>.\<close>

definition push_new_header :: "string set \<Rightarrow> header_ref list \<Rightarrow> header_ref \<Rightarrow> header_ref list" where
  "push_new_header processed queue h =
     (if fst h \<notin> processed \<and> h \<notin> set queue then queue @ [h] else queue)"

text \<open>The branch \<^verbatim>\<open>if local_header_path:\<close> of the loop body, up to its \<^verbatim>\<open>continue\<close>.\<close>

definition local_header_step :: "world \<Rightarrow> string \<Rightarrow> state \<Rightarrow> state" where
  "local_header_step w local_header_path s =
     (let abs_local_header_path = os_path_abspath w local_header_path;
          s1 = s\<lparr>processed_local_headers := insert abs_local_header_path (processed_local_headers s),
                 all_include_paths := insert (os_path_dirname abs_local_header_path)
                                        (all_include_paths s)\<rparr>;
          base_name = fst (os_path_splitext abs_local_header_path);
          cpp_file = base_name @ ''.cpp'';
          s2 = (if os_path_exists w cpp_file
                then s1\<lparr>all_source_files := insert cpp_file (all_source_files s1)\<rparr>
                else s1);
          new_headers = extract_headers_from_file w abs_local_header_path
      in s2\<lparr>headers_to_process :=
              foldl (push_new_header (processed_local_headers s2))
                    (headers_to_process s2) new_headers\<rparr>)"

text \<open>
  The choice of \<^verbatim>\<open>best_candidate\<close> from a non-empty candidate list (\<open>first # others\<close>).
\<close>

definition select_best_candidate :: "world \<Rightarrow> string list \<Rightarrow> candidate \<Rightarrow> candidate list \<Rightarrow> candidate" where
  "select_best_candidate w source_symbols first others =
     (if length (first # others) > 1
      then py_max_from (\<lambda>c. score_header_match w source_symbols (full_path c)) first others
      else first)"

text \<open>
  The part of the loop body behind \<^verbatim>\<open>--- Processing system header\<close>: candidate lookup,
  disambiguation, the skip of processed and toolchain packages, and the package lookup.
\<close>

definition system_header_step ::
  "world \<Rightarrow> PackageManager \<Rightarrow> string \<Rightarrow> string \<Rightarrow> state \<Rightarrow> error + state" where
  "system_header_step w pm main_source_file header_name s =
     (let source_symbols = analyze_source_for_symbols w main_source_file
      in case find_header_candidates w header_name pm (cache s) (backend_calls s) of
           Inl e \<Rightarrow> Inl e
         | Inr (candidates, c1, calls1) \<Rightarrow>
             let s1 = s\<lparr>cache := c1, backend_calls := calls1\<rparr>
             in (case candidates of
                   [] \<Rightarrow> Inr s1
                 | first # others \<Rightarrow>
                     let best_candidate = select_best_candidate w source_symbols first others;
                         pkg = package best_candidate
                     in if pkg \<in> processed_system_packages s1 \<or> ignored_package pkg
                        then Inr s1
                        else let s2 = s1\<lparr>processed_system_packages :=
                                            insert pkg (processed_system_packages s1)\<rparr>
                             in (case find_package_info w pkg pm (cache s2) (backend_calls s2) of
                                   Inl e \<Rightarrow> Inl e
                                 | Inr ((package_includes, package_libs), c2, calls2) \<Rightarrow>
                                     Inr (s2\<lparr>cache := c2, backend_calls := calls2,
                                              all_include_paths :=
                                                all_include_paths s2 \<union> set package_includes,
                                              all_libs := all_libs s2 \<union> set package_libs\<rparr>))))"

text \<open>
  One iteration of \<^verbatim>\<open>while headers_to_process:\<close>, for a non-empty worklist. A path is true
  in a condition when it is neither \<^verbatim>\<open>None\<close> nor the empty string.
\<close>

definition loop_body ::
  "world \<Rightarrow> PackageManager \<Rightarrow> string \<Rightarrow> string \<Rightarrow> state \<Rightarrow> error + state" where
  "loop_body w pm main_source_file project_root s =
     (case headers_to_process s of
        [] \<Rightarrow> Inr s
      | (header_name, quote_type) # rest \<Rightarrow>
          let s0 = s\<lparr>headers_to_process := rest\<rparr>
          in if header_name \<in> CPP_STANDARD_HEADERS \<or> header_name \<in> processed_local_headers s0
             then Inr s0
             else let local_header_path =
                        (if quote_type = CHR 0x22
                         then find_local_file w header_name project_root else None)
                  in (case local_header_path of
                        None \<Rightarrow> system_header_step w pm main_source_file header_name s0
                      | Some path \<Rightarrow>
                          if path \<noteq> [] then Inr (local_header_step w path s0)
                          else system_header_step w pm main_source_file header_name s0))"

text \<open>
  The loop itself. It need not terminate, so the result is an option: \<open>None\<close> means that
  the loop never leaves; \<open>Some (Inl e)\<close> that an exception left it; \<open>Some (Inr s)\<close>
  that it ended in state \<open>s\<close>.
\<close>

partial_function (option) resolve_loop ::
  "world \<Rightarrow> PackageManager \<Rightarrow> string \<Rightarrow> string \<Rightarrow> state \<Rightarrow> (error + state) option" where
  "resolve_loop w pm main_source_file project_root s =
     (if headers_to_process s = [] then Some (Inr s)
      else (case loop_body w pm main_source_file project_root s of
              Inl e \<Rightarrow> Some (Inl e)
            | Inr s' \<Rightarrow> resolve_loop w pm main_source_file project_root s'))"

text \<open>
  The state in which \<^verbatim>\<open>main\<close> enters the loop, for the absolute path of the entry file and
  the cache as opened.
\<close>

definition initial_state :: "world \<Rightarrow> string \<Rightarrow> Cache \<Rightarrow> state" where
  "initial_state w main_source_file c =
     \<lparr>all_source_files = {main_source_file},
      all_include_paths = {},
      all_libs = {},
      processed_system_packages = {},
      processed_local_headers = {},
      headers_to_process = extract_headers_from_file w main_source_file,
      cache = c,
      backend_calls = []\<rparr>"

definition resolve :: "world \<Rightarrow> PackageManager \<Rightarrow> string \<Rightarrow> Cache \<Rightarrow> (error + state) option" where
  "resolve w pm source_file c =
     (let main_source_file = os_path_abspath w source_file;
          project_root = os_path_dirname main_source_file
      in resolve_loop w pm main_source_file project_root (initial_state w main_source_file c))"

text \<open>
  The states the loop passes through: \<open>loop_reaches w pm f r s t\<close> holds when some number
  of iterations, none of them leaving by an exception, leads from \<open>s\<close> to \<open>t\<close>.
\<close>

inductive loop_reaches ::
  "world \<Rightarrow> PackageManager \<Rightarrow> string \<Rightarrow> string \<Rightarrow> state \<Rightarrow> state \<Rightarrow> bool"
  for w pm main_source_file project_root s where
    reaches_start: "loop_reaches w pm main_source_file project_root s s"
  | reaches_step:
      "loop_reaches w pm main_source_file project_root s t \<Longrightarrow>
       headers_to_process t \<noteq> [] \<Longrightarrow>
       loop_body w pm main_source_file project_root t = Inr t' \<Longrightarrow>
       loop_reaches w pm main_source_file project_root s t'"

subsection \<open>Failed queries\<close>


subsection \<open>Example projects\<close>

text \<open>
  Concrete worlds on which the theorems below are exercised. All of them have the project
  root \<^verbatim>\<open>/proj\<close>, paths that are already absolute and normalised (so that
  \<^verbatim>\<open>os.path.abspath\<close> returns its argument), and no package-manager tool installed
  unless the world says which commands succeed.
\<close>

definition include_line :: "char \<Rightarrow> string \<Rightarrow> char \<Rightarrow> string" where
  "include_line opener name closer = ''#include '' @ [opener] @ name @ [closer, CHR 0x0A]"

definition project_world :: "(string \<times> string) list \<Rightarrow> string list \<Rightarrow> world" where
  "project_world files others =
     \<lparr>read_text = map_of files,
      read_text_strict = map_of files,
      os_walk = (\<lambda>d. if d = ''/proj''
                     then [(''/proj'', map (\<lambda>(path, _). drop 6 path) files)] else []),
      os_path_exists = (\<lambda>path. path \<in> set (map fst files) \<or> path \<in> set others),
      os_path_abspath = (\<lambda>path. path),
      subprocess_run = (\<lambda>command. FileNotFound)\<rparr>"

text \<open>
  An entry file with two include lines whose delimiters do not agree:
  \<^verbatim>\<open>#include "util.h>\<close> and \<^verbatim>\<open>#include <zlib.h"\<close>.
\<close>

definition mismatch_world :: world where
  "mismatch_world = project_world
     [(''/proj/main.cpp'',
       include_line (CHR 0x22) ''util.h'' CHR ''>'' @ include_line CHR ''<'' ''zlib.h'' (CHR 0x22))]
     []"

text \<open>
  The mutual include cycle: \<^verbatim>\<open>main.cpp\<close> includes \<^verbatim>\<open>"b.h"\<close>, \<^verbatim>\<open>b.h\<close> includes \<^verbatim>\<open>"c.h"\<close> and
  \<^verbatim>\<open>c.h\<close> includes \<^verbatim>\<open>"b.h"\<close>.
\<close>

definition cycle_world :: world where
  "cycle_world = project_world
     [(''/proj/main.cpp'', include_line (CHR 0x22) ''b.h'' (CHR 0x22)),
      (''/proj/b.h'', include_line (CHR 0x22) ''c.h'' (CHR 0x22)),
      (''/proj/c.h'', include_line (CHR 0x22) ''b.h'' (CHR 0x22))]
     []"

text \<open>
  The states the loop moves through on that project: one of the two headers is the only
  worklist entry, and the resolved set holds nothing but their absolute paths.
\<close>

definition cycle_inv :: "state \<Rightarrow> bool" where
  "cycle_inv s =
     ((headers_to_process s = [(''b.h'', CHR 0x22)] \<or> headers_to_process s = [(''c.h'', CHR 0x22)])
      \<and> processed_local_headers s \<subseteq> {''/proj/b.h'', ''/proj/c.h''})"

text \<open>A cache that is switched off (\<^verbatim>\<open>--no-cache\<close>) and an enabled cache with empty tables.\<close>

definition disabled_cache :: Cache where
  "disabled_cache =
     \<lparr>enabled = False, distro_id = ''arch'', system_headers = Map.empty, packages = Map.empty\<rparr>"

definition empty_cache :: Cache where
  "empty_cache =
     \<lparr>enabled = True, distro_id = ''arch'', system_headers = Map.empty, packages = Map.empty\<rparr>"

text \<open>
  An Arch system on which the query for \<^verbatim>\<open>foo.h\<close> succeeds (exit status 0) and lists one
  file, which is not named \<^verbatim>\<open>foo.h\<close>: the candidate list for \<^verbatim>\<open>foo.h\<close> is empty.
\<close>

definition arch_world :: world where
  "arch_world = (project_world [] [])
     \<lparr>subprocess_run := (\<lambda>command.
        if command = [''pkgfile'', ''-s'', ''foo.h'']
        then Completed 0 (''extra/bar'' @ [CHR 0x09] @ ''/usr/include/bar/notfoo.h'')
        else FileNotFound)\<rparr>"


text \<open>
  The example of the specification: \<^verbatim>\<open>main.cpp\<close> includes \<^verbatim>\<open>"util.h"\<close> and \<^verbatim>\<open><vector>\<close>,
  \<^verbatim>\<open>util.h\<close> includes \<^verbatim>\<open><string>\<close>, and there is no \<^verbatim>\<open>util.cpp\<close>. The states of its run
  differ in the worklist only, once \<^verbatim>\<open>util.h\<close> is resolved.
\<close>

definition example_world :: world where
  "example_world = project_world
     [(''/proj/main.cpp'',
       include_line (CHR 0x22) ''util.h'' (CHR 0x22) @ include_line CHR ''<'' ''vector'' CHR ''>''),
      (''/proj/util.h'', include_line CHR ''<'' ''string'' CHR ''>'')]
     []"

definition example_state :: "header_ref list \<Rightarrow> state" where
  "example_state worklist =
     \<lparr>all_source_files = {''/proj/main.cpp''},
      all_include_paths = {''/proj''},
      all_libs = {},
      processed_system_packages = {},
      processed_local_headers = {''/proj/util.h''},
      headers_to_process = worklist,
      cache = disabled_cache,
      backend_calls = []\<rparr>"

text \<open>
  A Debian system on which \<^verbatim>\<open>stdio_ext.h\<close> belongs to the toolchain package
  \<^verbatim>\<open>libc6-dev\<close>, whose file list names a header directory and a shared library.
\<close>

definition libc_candidate :: candidate where
  "libc_candidate = \<lparr>package = ''libc6-dev'', full_path = ''/usr/include/stdio_ext.h''\<rparr>"

definition toolchain_world :: world where
  "toolchain_world =
     (project_world [(''/proj/main.cpp'', include_line CHR ''<'' ''stdio_ext.h'' CHR ''>'')] [])
     \<lparr>subprocess_run := (\<lambda>command.
        if command = [''dpkg'', ''-S'', ''*/stdio_ext.h'']
        then Completed 0 ''libc6-dev:amd64: /usr/include/stdio_ext.h''
        else if command = [''dpkg'', ''-L'', ''libc6-dev'']
        then Completed 0 (''/usr/include/stdio_ext.h'' @ [CHR 0x0A] @
                          ''/usr/lib/x86_64-linux-gnu/libc.so'')
        else FileNotFound)\<rparr>"

definition toolchain_state :: "header_ref list \<Rightarrow> backend_call list \<Rightarrow> state" where
  "toolchain_state worklist calls =
     \<lparr>all_source_files = {''/proj/main.cpp''},
      all_include_paths = {},
      all_libs = {},
      processed_system_packages = {},
      processed_local_headers = {},
      headers_to_process = worklist,
      cache = disabled_cache,
      backend_calls = calls\<rparr>"




section \<open>Properties\<close>

subsection \<open>Lemmas on the Header Extractor\<close>

lemma dropWhile_all_append:
  "\<forall>c\<in>set ws. P c \<Longrightarrow> dropWhile P (ws @ rest) = dropWhile P rest"
  by (induction ws) auto

lemma takeWhile_all_append:
  "\<forall>c\<in>set ws. P c \<Longrightarrow> takeWhile P (ws @ rest) = ws @ takeWhile P rest"
  by (induction ws) auto

lemma INCLUDE_REGEX_match_directive:
  assumes ws1: "\<forall>c\<in>set ws1. py_isspace c"
    and ws2: "\<forall>c\<in>set ws2. py_isspace c"
    and ws3: "\<forall>c\<in>set ws3. py_isspace c"
    and opener: "opener = CHR ''<'' \<or> opener = CHR 0x22"
    and closer: "closer = CHR ''>'' \<or> closer = CHR 0x22"
    and name: "name \<noteq> []" "\<forall>c\<in>set name. name_char c"
  shows "INCLUDE_REGEX_match
           (ws1 @ ''#'' @ ws2 @ ''include'' @ ws3 @ [opener] @ name @ [closer] @ rest)
         = Some (opener, name)"
proof -
  define t3 where "t3 = name @ closer # rest"
  define t2 where "t2 = ws3 @ opener # t3"
  define t1 where "t1 = ws2 @ ''include'' @ t2"
  have line: "ws1 @ ''#'' @ ws2 @ ''include'' @ ws3 @ [opener] @ name @ [closer] @ rest
              = ws1 @ CHR ''#'' # t1"
    by (simp add: t1_def t2_def t3_def)
  have sp: "\<not> py_isspace CHR ''#''" "\<not> py_isspace CHR ''i''" "\<not> py_isspace opener"
    using opener by (auto simp: py_isspace_def)
  have d1: "dropWhile py_isspace (ws1 @ CHR ''#'' # t1) = CHR ''#'' # t1"
    using ws1 sp(1) by (simp add: dropWhile_all_append)
  have d2: "dropWhile py_isspace t1 = ''include'' @ t2"
    unfolding t1_def using ws2 sp(2) by (simp add: dropWhile_all_append)
  have s2: "startswith (''include'' @ t2) ''include''" "drop 7 (''include'' @ t2) = t2"
    by (simp_all add: startswith_def)
  have d3: "dropWhile py_isspace t2 = opener # t3"
    unfolding t2_def using ws3 sp(3) by (simp add: dropWhile_all_append)
  have nc: "\<not> name_char closer"
    using closer by (auto simp: name_char_def)
  have t4: "takeWhile name_char t3 = name"
    unfolding t3_def using name(2) nc by (simp add: takeWhile_all_append)
  have d4: "dropWhile name_char t3 = closer # rest"
    unfolding t3_def using name(2) nc by (simp add: dropWhile_all_append)
  show ?thesis
    unfolding line INCLUDE_REGEX_match_def d1
    using opener name(1)
    by (auto simp only: list.case if_True if_False not_False_eq_True simp_thms
          d2 s2 d3 t4 d4 Let_def list.distinct split: if_splits)
qed

lemma set_add_keeps: "x \<in> set xs \<Longrightarrow> x \<in> set (set_add y xs)"
  by (simp add: set_add_def)

lemma set_add_member: "x \<in> set (set_add x xs)"
  by (simp add: set_add_def)

lemma add_header_of_line_keeps: "x \<in> set hs \<Longrightarrow> x \<in> set (add_header_of_line hs l)"
  by (auto simp: add_header_of_line_def set_add_keeps split: option.splits)

lemma foldl_add_header_keeps:
  "x \<in> set hs \<Longrightarrow> x \<in> set (foldl add_header_of_line hs ls)"
  by (induction ls arbitrary: hs) (auto simp: add_header_of_line_keeps)

lemma foldl_add_header_matched:
  "l \<in> set ls \<Longrightarrow> INCLUDE_REGEX_match l = Some (q, n) \<Longrightarrow>
   (n, q) \<in> set (foldl add_header_of_line hs ls)"
proof (induction ls arbitrary: hs)
  case Nil
  then show ?case by simp
next
  case (Cons a ls)
  show ?case
  proof (cases "l = a")
    case True
    with Cons.prems have "(n, q) \<in> set (add_header_of_line hs a)"
      by (simp add: add_header_of_line_def set_add_member)
    then show ?thesis by (simp add: foldl_add_header_keeps)
  next
    case False
    with Cons show ?thesis by simp
  qed
qed

text \<open>
  Claim C10. A line whose include delimiters do not agree (\<^verbatim>\<open>"name>\<close> or \<^verbatim>\<open><name"\<close>) is
  still matched by the include pattern, with the groups (opening delimiter, name); when
  such a line occurs in a readable file, the Header Extractor returns the pair
  (name, opening delimiter), so the opening character alone decides the locality.
\<close>

theorem extractor_accepts_mismatched_delimiters:
  assumes "\<forall>c\<in>set ws1. py_isspace c"
    and "\<forall>c\<in>set ws2. py_isspace c"
    and "\<forall>c\<in>set ws3. py_isspace c"
    and "name \<noteq> []" and "\<forall>c\<in>set name. name_char c"
    and "(opener = CHR ''<'' \<and> closer = CHR 0x22) \<or> (opener = CHR 0x22 \<and> closer = CHR ''>'')"
    and "line = ws1 @ ''#'' @ ws2 @ ''include'' @ ws3 @ [opener] @ name @ [closer] @ rest"
  shows "INCLUDE_REGEX_match line = Some (opener, name) \<and>
         (read_text w file_path = Some content \<and> line \<in> set (readlines content)
          \<longrightarrow> (name, opener) \<in> set (extract_headers_from_file w file_path))"
proof -
  have m: "INCLUDE_REGEX_match line = Some (opener, name)"
    unfolding assms(7)
    by (rule INCLUDE_REGEX_match_directive) (use assms in auto)
  show ?thesis
    using m by (auto simp: extract_headers_from_file_def extract_headers_from_text_def
        foldl_add_header_matched)
qed

theorem extractor_accepts_mismatched_delimiters_witness:
  "INCLUDE_REGEX_match (include_line (CHR 0x22) ''util.h'' CHR ''>'') = Some (CHR 0x22, ''util.h'')
   \<and> (''util.h'', CHR 0x22) \<in> set (extract_headers_from_file mismatch_world ''/proj/main.cpp'')
   \<and> INCLUDE_REGEX_match (include_line CHR ''<'' ''zlib.h'' (CHR 0x22)) = Some (CHR ''<'', ''zlib.h'')
   \<and> (''zlib.h'', CHR ''<'') \<in> set (extract_headers_from_file mismatch_world ''/proj/main.cpp'')"
proof -
  let ?content = "include_line (CHR 0x22) ''util.h'' CHR ''>'' @ include_line CHR ''<'' ''zlib.h'' (CHR 0x22)"
  have sp: "\<forall>c\<in>set []. py_isspace c" "\<forall>c\<in>set '' ''. py_isspace c"
    by (simp_all add: py_isspace_def)
  have nm: "''util.h'' \<noteq> []" "\<forall>c\<in>set ''util.h''. name_char c"
           "''zlib.h'' \<noteq> []" "\<forall>c\<in>set ''zlib.h''. name_char c"
    by (simp_all add: name_char_def)
  have l1: "include_line (CHR 0x22) ''util.h'' CHR ''>''
            = [] @ ''#'' @ [] @ ''include'' @ '' '' @ [CHR 0x22] @ ''util.h'' @ [CHR ''>''] @ [CHR 0x0A]"
    by (simp add: include_line_def)
  have l2: "include_line CHR ''<'' ''zlib.h'' (CHR 0x22)
            = [] @ ''#'' @ [] @ ''include'' @ '' '' @ [CHR ''<''] @ ''zlib.h'' @ [CHR 0x22] @ [CHR 0x0A]"
    by (simp add: include_line_def)
  have rd: "read_text mismatch_world ''/proj/main.cpp'' = Some ?content"
    by (simp add: mismatch_world_def project_world_def)
  have ls: "include_line (CHR 0x22) ''util.h'' CHR ''>'' \<in> set (readlines ?content)"
           "include_line CHR ''<'' ''zlib.h'' (CHR 0x22) \<in> set (readlines ?content)"
    by (simp_all add: include_line_def)
  have t1: "INCLUDE_REGEX_match (include_line (CHR 0x22) ''util.h'' CHR ''>'')
              = Some (CHR 0x22, ''util.h'') \<and>
            (read_text mismatch_world ''/proj/main.cpp'' = Some ?content \<and>
             include_line (CHR 0x22) ''util.h'' CHR ''>'' \<in> set (readlines ?content)
             \<longrightarrow> (''util.h'', CHR 0x22) \<in> set (extract_headers_from_file mismatch_world ''/proj/main.cpp''))"
    by (rule extractor_accepts_mismatched_delimiters [OF sp(1) sp(1) sp(2) nm(1) nm(2) _ l1]) simp
  have t2: "INCLUDE_REGEX_match (include_line CHR ''<'' ''zlib.h'' (CHR 0x22))
              = Some (CHR ''<'', ''zlib.h'') \<and>
            (read_text mismatch_world ''/proj/main.cpp'' = Some ?content \<and>
             include_line CHR ''<'' ''zlib.h'' (CHR 0x22) \<in> set (readlines ?content)
             \<longrightarrow> (''zlib.h'', CHR ''<'') \<in> set (extract_headers_from_file mismatch_world ''/proj/main.cpp''))"
    by (rule extractor_accepts_mismatched_delimiters [OF sp(1) sp(1) sp(2) nm(3) nm(4) _ l2]) simp
  from t1 t2 rd ls show ?thesis by blast
qed

subsection \<open>One iteration, case by case\<close>

lemma find_header_candidates_calls:
  assumes "find_header_candidates w h pm c calls = Inr (cs, c', calls')"
  shows "calls' = calls \<or> calls' = calls @ [CandidatesFor h]"
  using assms
  by (auto simp: find_header_candidates_def Let_def split: option.splits sum.splits if_splits)

lemma find_package_info_calls:
  assumes "find_package_info w p pm c calls = Inr (info, c', calls')"
  shows "calls' = calls \<or> calls' = calls @ [InfoFor p]"
  using assms
  by (auto simp: find_package_info_def split: option.splits sum.splits)

lemma loop_body_cases:
  assumes "loop_body w pm m r s = Inr s'" and "headers_to_process s \<noteq> []"
  obtains
    (discard) h q rest where
      "headers_to_process s = (h, q) # rest"
      "h \<in> CPP_STANDARD_HEADERS \<or> h \<in> processed_local_headers s"
      "s' = s\<lparr>headers_to_process := rest\<rparr>"
  | (local) h rest path where
      "headers_to_process s = (h, CHR 0x22) # rest"
      "h \<notin> CPP_STANDARD_HEADERS" "h \<notin> processed_local_headers s"
      "find_local_file w h r = Some path" "path \<noteq> []"
      "s' = local_header_step w path (s\<lparr>headers_to_process := rest\<rparr>)"
  | (system) h q rest where
      "headers_to_process s = (h, q) # rest"
      "h \<notin> CPP_STANDARD_HEADERS" "h \<notin> processed_local_headers s"
      "system_header_step w pm m h (s\<lparr>headers_to_process := rest\<rparr>) = Inr s'"
proof -
  from assms(2) obtain h q rest where hq: "headers_to_process s = (h, q) # rest"
    by (cases "headers_to_process s") auto
  show ?thesis
  proof (cases "h \<in> CPP_STANDARD_HEADERS \<or> h \<in> processed_local_headers s")
    case True
    with assms(1) hq have "s' = s\<lparr>headers_to_process := rest\<rparr>"
      by (auto simp: loop_body_def Let_def)
    with hq True show ?thesis by (rule discard)
  next
    case False
    then have nh: "h \<notin> CPP_STANDARD_HEADERS" "h \<notin> processed_local_headers s" by auto
    show ?thesis
    proof (cases "q = CHR 0x22 \<and> (\<exists>path. find_local_file w h r = Some path \<and> path \<noteq> [])")
      case True
      then obtain path where p: "q = CHR 0x22" "find_local_file w h r = Some path" "path \<noteq> []"
        by blast
      with assms(1) hq nh
      have "s' = local_header_step w path (s\<lparr>headers_to_process := rest\<rparr>)"
        by (simp add: loop_body_def Let_def)
      with hq nh p show ?thesis by (auto intro: local)
    next
      case False
      with assms(1) hq nh
      have "system_header_step w pm m h (s\<lparr>headers_to_process := rest\<rparr>) = Inr s'"
        by (auto simp: loop_body_def Let_def split: option.splits if_splits)
      with hq nh show ?thesis by (rule system)
    qed
  qed
qed

lemma local_header_step_fields:
  "backend_calls (local_header_step w path s) = backend_calls s"
  "cache (local_header_step w path s) = cache s"
  "processed_system_packages (local_header_step w path s) = processed_system_packages s"
  "all_libs (local_header_step w path s) = all_libs s"
  "all_source_files s \<subseteq> all_source_files (local_header_step w path s)"
  "all_include_paths s \<subseteq> all_include_paths (local_header_step w path s)"
  by (auto simp: local_header_step_def Let_def)

lemma system_header_step_cases:
  assumes "system_header_step w pm m h s = Inr s'"
  obtains
    (skip) cs c1 calls1 where
      "find_header_candidates w h pm (cache s) (backend_calls s) = Inr (cs, c1, calls1)"
      "cs = [] \<or> (\<exists>first others. cs = first # others \<and>
          (let pkg = package (select_best_candidate w (analyze_source_for_symbols w m) first others)
           in pkg \<in> processed_system_packages s \<or> ignored_package pkg))"
      "s' = s\<lparr>cache := c1, backend_calls := calls1\<rparr>"
  | (add) first others c1 calls1 pkg incs libs c2 calls2 where
      "find_header_candidates w h pm (cache s) (backend_calls s) = Inr (first # others, c1, calls1)"
      "pkg = package (select_best_candidate w (analyze_source_for_symbols w m) first others)"
      "pkg \<notin> processed_system_packages s" "\<not> ignored_package pkg"
      "find_package_info w pkg pm c1 calls1 = Inr ((incs, libs), c2, calls2)"
      "s' = s\<lparr>cache := c2, backend_calls := calls2,
               processed_system_packages := insert pkg (processed_system_packages s),
               all_include_paths := all_include_paths s \<union> set incs,
               all_libs := all_libs s \<union> set libs\<rparr>"
proof -
  from assms obtain cs c1 calls1 where
    f: "find_header_candidates w h pm (cache s) (backend_calls s) = Inr (cs, c1, calls1)"
    by (auto simp: system_header_step_def Let_def split: sum.splits)
  show ?thesis
  proof (cases cs)
    case Nil
    with assms f have "s' = s\<lparr>cache := c1, backend_calls := calls1\<rparr>"
      by (simp add: system_header_step_def Let_def)
    with f Nil show ?thesis by (auto intro: skip)
  next
    case (Cons first others)
    define pkg where
      "pkg = package (select_best_candidate w (analyze_source_for_symbols w m) first others)"
    show ?thesis
    proof (cases "pkg \<in> processed_system_packages s \<or> ignored_package pkg")
      case True
      with assms f Cons have "s' = s\<lparr>cache := c1, backend_calls := calls1\<rparr>"
        by (auto simp: system_header_step_def Let_def pkg_def)
      moreover from True Cons have
        "cs = [] \<or> (\<exists>first others. cs = first # others \<and>
          (let pkg = package (select_best_candidate w (analyze_source_for_symbols w m) first others)
           in pkg \<in> processed_system_packages s \<or> ignored_package pkg))"
        by (simp add: pkg_def Let_def)
      ultimately show ?thesis using f by (auto intro: skip)
    next
      case False
      with assms f Cons obtain incs libs c2 calls2 where
        i: "find_package_info w pkg pm c1 calls1 = Inr ((incs, libs), c2, calls2)"
        and s': "s' = s\<lparr>cache := c2, backend_calls := calls2,
               processed_system_packages := insert pkg (processed_system_packages s),
               all_include_paths := all_include_paths s \<union> set incs,
               all_libs := all_libs s \<union> set libs\<rparr>"
        by (auto simp: system_header_step_def Let_def pkg_def split: sum.splits)
      from f Cons pkg_def False i s' show ?thesis by (auto intro: add)
    qed
  qed
qed

subsection \<open>Invariants of the loop\<close>

lemma system_header_step_calls:
  assumes "system_header_step w pm m h s = Inr s'" and "x \<in> set (backend_calls s')"
  shows "x \<in> set (backend_calls s) \<or> x = CandidatesFor h \<or>
         (\<exists>p. x = InfoFor p \<and> \<not> ignored_package p)"
  using assms(1)
proof (cases rule: system_header_step_cases)
  case (skip cs c1 calls1)
  from find_header_candidates_calls[OF skip(1)] skip(3) assms(2) show ?thesis by auto
next
  case (add first others c1 calls1 pkg incs libs c2 calls2)
  from find_header_candidates_calls[OF add(1)] find_package_info_calls[OF add(5)]
    add(4,6) assms(2)
  show ?thesis by auto
qed

lemma system_header_step_processed:
  assumes "system_header_step w pm m h s = Inr s'" and "p \<in> processed_system_packages s'"
  shows "p \<in> processed_system_packages s \<or> \<not> ignored_package p"
  using assms(1)
proof (cases rule: system_header_step_cases)
  case (skip cs c1 calls1)
  with assms(2) show ?thesis by simp
next
  case (add first others c1 calls1 pkg incs libs c2 calls2)
  with assms(2) show ?thesis by auto
qed


lemma loop_body_calls:
  assumes "loop_body w pm m r s = Inr s'" and "headers_to_process s \<noteq> []"
    and "x \<in> set (backend_calls s')"
  shows "x \<in> set (backend_calls s) \<or>
         (\<exists>h. x = CandidatesFor h \<and> h \<notin> CPP_STANDARD_HEADERS) \<or>
         (\<exists>p. x = InfoFor p \<and> \<not> ignored_package p)"
  using assms(1,2)
proof (cases rule: loop_body_cases)
  case (discard h q rest)
  with assms(3) show ?thesis by simp
next
  case (local h rest path)
  with assms(3) show ?thesis by (simp add: local_header_step_fields)
next
  case (system h q rest)
  from system_header_step_calls[OF system(4) assms(3)] system(2) show ?thesis by auto
qed

lemma loop_body_processed:
  assumes "loop_body w pm m r s = Inr s'" and "headers_to_process s \<noteq> []"
    and "p \<in> processed_system_packages s'"
  shows "p \<in> processed_system_packages s \<or> \<not> ignored_package p"
  using assms(1,2)
proof (cases rule: loop_body_cases)
  case (discard h q rest)
  with assms(3) show ?thesis by simp
next
  case (local h rest path)
  with assms(3) show ?thesis by (simp add: local_header_step_fields)
next
  case (system h q rest)
  from system_header_step_processed[OF system(4) assms(3)] show ?thesis by auto
qed


lemma loop_reaches_calls:
  assumes "loop_reaches w pm m r s t" and "x \<in> set (backend_calls t)"
  shows "x \<in> set (backend_calls s) \<or>
         (\<exists>h. x = CandidatesFor h \<and> h \<notin> CPP_STANDARD_HEADERS) \<or>
         (\<exists>p. x = InfoFor p \<and> \<not> ignored_package p)"
  using assms
proof (induction rule: loop_reaches.induct)
  case reaches_start
  then show ?case by simp
next
  case (reaches_step t t')
  from loop_body_calls[OF reaches_step(3) reaches_step(2) reaches_step(5)] reaches_step(4)
  show ?case by blast
qed

lemma loop_reaches_processed:
  assumes "loop_reaches w pm m r s t" and "p \<in> processed_system_packages t"
  shows "p \<in> processed_system_packages s \<or> \<not> ignored_package p"
  using assms
proof (induction rule: loop_reaches.induct)
  case reaches_start
  then show ?case by simp
next
  case (reaches_step t t')
  from loop_body_processed[OF reaches_step(3) reaches_step(2) reaches_step(5)] reaches_step(4)
  show ?case by blast
qed


lemma loop_reaches_prepend:
  assumes "loop_reaches w pm m r s' t"
    and "headers_to_process s \<noteq> []" and "loop_body w pm m r s = Inr s'"
  shows "loop_reaches w pm m r s t"
  using assms
proof (induction rule: loop_reaches.induct)
  case reaches_start
  show ?case
    by (rule loop_reaches.reaches_step[OF loop_reaches.reaches_start reaches_start])
next
  case (reaches_step t t')
  from reaches_step(4)[OF reaches_step(5,6)] reaches_step(2,3)
  show ?case by (rule loop_reaches.reaches_step)
qed

lemma resolve_loop_reaches:
  assumes "resolve_loop w0 pm0 m0 r0 s0 = Some y0"
  shows "\<forall>t. y0 = Inr t \<longrightarrow> loop_reaches w0 pm0 m0 r0 s0 t \<and> headers_to_process t = []"
proof (rule resolve_loop.raw_induct
    [where P = "\<lambda>w pm m r s y. \<forall>t. y = Inr t \<longrightarrow>
                  loop_reaches w pm m r s t \<and> headers_to_process t = []",
     OF _ assms], goal_cases)
  case (1 f w pm m r s y)
  show ?case
  proof (cases "headers_to_process s = []")
    case True
    with 1(2) show ?thesis by (auto intro: loop_reaches.reaches_start)
  next
    case False
    show ?thesis
    proof (cases "loop_body w pm m r s")
      case (Inl e)
      with 1(2) False show ?thesis by auto
    next
      case (Inr s')
      with 1(2) False have "f w pm m r s' = Some y" by simp
      from 1(1)[OF this] loop_reaches_prepend[OF _ False Inr] show ?thesis by blast
    qed
  qed
qed

lemma initial_state_fields:
  "backend_calls (initial_state w m c) = []"
  "processed_system_packages (initial_state w m c) = {}"
  "all_libs (initial_state w m c) = {}"
  by (simp_all add: initial_state_def)

text \<open>
  Claim C3. A popped header reference whose name is in the standard-header set is discarded
  before any lookup: the iteration only removes it from the worklist. Hence no state that
  the loop reaches from the initial state, and no final state of a run, records a candidate
  query to the Package Backend for such a name.
\<close>

theorem standard_header_never_queries_backend:
  assumes "h \<in> CPP_STANDARD_HEADERS"
  shows "(headers_to_process s = (h, q) # rest \<longrightarrow>
            loop_body w pm m r s = Inr (s\<lparr>headers_to_process := rest\<rparr>))
       \<and> (loop_reaches w pm m r (initial_state w m c) t \<longrightarrow>
            CandidatesFor h \<notin> set (backend_calls t))
       \<and> (resolve w pm source_file c = Some (Inr t) \<longrightarrow>
            CandidatesFor h \<notin> set (backend_calls t))"
proof (intro conjI impI)
  assume "headers_to_process s = (h, q) # rest"
  with assms show "loop_body w pm m r s = Inr (s\<lparr>headers_to_process := rest\<rparr>)"
    by (simp add: loop_body_def Let_def)
next
  assume "loop_reaches w pm m r (initial_state w m c) t"
  from loop_reaches_calls[OF this, of "CandidatesFor h"] assms
  show "CandidatesFor h \<notin> set (backend_calls t)"
    by (auto simp: initial_state_fields)
next
  assume "resolve w pm source_file c = Some (Inr t)"
  then have "loop_reaches w pm (os_path_abspath w source_file)
               (os_path_dirname (os_path_abspath w source_file))
               (initial_state w (os_path_abspath w source_file) c) t"
    using resolve_loop_reaches by (fastforce simp: resolve_def Let_def)
  from loop_reaches_calls[OF this, of "CandidatesFor h"] assms
  show "CandidatesFor h \<notin> set (backend_calls t)"
    by (auto simp: initial_state_fields)
qed

text \<open>
  Claim C7. When the package of the selected candidate (the only one or the best-scoring
  one) starts with a toolchain-ignore prefix, the iteration changes nothing but the cache
  and the call record left by the candidate lookup: the output sets stay as they were.
  Over a whole run such a package is never marked processed and its package information
  is never requested.
\<close>

theorem toolchain_package_never_contributes:
  assumes "ignored_package pkg"
  shows "(find_header_candidates w h pm (cache s) (backend_calls s)
            = Inr (first # others, c1, calls1) \<and>
          package (select_best_candidate w (analyze_source_for_symbols w m) first others) = pkg
          \<longrightarrow> system_header_step w pm m h s = Inr (s\<lparr>cache := c1, backend_calls := calls1\<rparr>))
       \<and> (loop_reaches w pm m r (initial_state w m c) t \<longrightarrow>
            pkg \<notin> processed_system_packages t \<and> InfoFor pkg \<notin> set (backend_calls t))
       \<and> (resolve w pm source_file c = Some (Inr t) \<longrightarrow>
            pkg \<notin> processed_system_packages t \<and> InfoFor pkg \<notin> set (backend_calls t))"
proof (intro conjI impI)
  assume "find_header_candidates w h pm (cache s) (backend_calls s)
            = Inr (first # others, c1, calls1) \<and>
          package (select_best_candidate w (analyze_source_for_symbols w m) first others) = pkg"
  with assms show "system_header_step w pm m h s = Inr (s\<lparr>cache := c1, backend_calls := calls1\<rparr>)"
    by (simp add: system_header_step_def Let_def)
next
  assume a: "loop_reaches w pm m r (initial_state w m c) t"
  from loop_reaches_processed[OF a, of pkg] assms
  show "pkg \<notin> processed_system_packages t" by (auto simp: initial_state_fields)
  from loop_reaches_calls[OF a, of "InfoFor pkg"] assms
  show "InfoFor pkg \<notin> set (backend_calls t)" by (auto simp: initial_state_fields)
next
  assume "resolve w pm source_file c = Some (Inr t)"
  then have a: "loop_reaches w pm (os_path_abspath w source_file)
               (os_path_dirname (os_path_abspath w source_file))
               (initial_state w (os_path_abspath w source_file) c) t"
    using resolve_loop_reaches by (fastforce simp: resolve_def Let_def)
  from loop_reaches_processed[OF a, of pkg] assms
  show "pkg \<notin> processed_system_packages t" by (auto simp: initial_state_fields)
  from loop_reaches_calls[OF a, of "InfoFor pkg"] assms
  show "InfoFor pkg \<notin> set (backend_calls t)" by (auto simp: initial_state_fields)
qed


subsection \<open>Disambiguation\<close>




subsection \<open>Failed queries\<close>













subsection \<open>The mutual include cycle\<close>

lemma cycle_world_facts:
  "extract_headers_from_file cycle_world ''/proj/main.cpp'' = [(''b.h'', CHR 0x22)]"
  "extract_headers_from_file cycle_world ''/proj/b.h'' = [(''c.h'', CHR 0x22)]"
  "extract_headers_from_file cycle_world ''/proj/c.h'' = [(''b.h'', CHR 0x22)]"
  "find_local_file cycle_world ''b.h'' ''/proj'' = Some ''/proj/b.h''"
  "find_local_file cycle_world ''c.h'' ''/proj'' = Some ''/proj/c.h''"
  "os_path_abspath cycle_world = (\<lambda>path. path)"
  "os_path_dirname ''/proj/main.cpp'' = ''/proj''"
  "''b.h'' \<notin> CPP_STANDARD_HEADERS"
  "''c.h'' \<notin> CPP_STANDARD_HEADERS"
          apply code_simp
         apply code_simp
        apply code_simp
       apply code_simp
      apply code_simp
     apply (simp add: cycle_world_def project_world_def)
    apply code_simp
   apply code_simp
  apply code_simp
  done

lemma cycle_step_b:
  assumes "headers_to_process s = [(''b.h'', CHR 0x22)]"
    and "processed_local_headers s \<subseteq> {''/proj/b.h'', ''/proj/c.h''}"
  shows "\<exists>s'. loop_body cycle_world pm m ''/proj'' s = Inr s' \<and>
              headers_to_process s' = [(''c.h'', CHR 0x22)] \<and>
              processed_local_headers s' = insert ''/proj/b.h'' (processed_local_headers s)"
proof -
  have np: "''b.h'' \<notin> processed_local_headers s" "''c.h'' \<notin> processed_local_headers s"
    using assms(2) by auto
  show ?thesis
    using assms(1) np
    by (simp add: loop_body_def local_header_step_def Let_def push_new_header_def
        cycle_world_facts)
qed

lemma cycle_step_c:
  assumes "headers_to_process s = [(''c.h'', CHR 0x22)]"
    and "processed_local_headers s \<subseteq> {''/proj/b.h'', ''/proj/c.h''}"
  shows "\<exists>s'. loop_body cycle_world pm m ''/proj'' s = Inr s' \<and>
              headers_to_process s' = [(''b.h'', CHR 0x22)] \<and>
              processed_local_headers s' = insert ''/proj/c.h'' (processed_local_headers s)"
proof -
  have np: "''b.h'' \<notin> processed_local_headers s" "''c.h'' \<notin> processed_local_headers s"
    using assms(2) by auto
  show ?thesis
    using assms(1) np
    by (simp add: loop_body_def local_header_step_def Let_def push_new_header_def
        cycle_world_facts)
qed

lemma cycle_inv_step:
  assumes "cycle_inv s"
  shows "\<exists>s'. loop_body cycle_world pm m ''/proj'' s = Inr s' \<and> cycle_inv s'"
proof -
  from assms have sub: "processed_local_headers s \<subseteq> {''/proj/b.h'', ''/proj/c.h''}"
    by (simp add: cycle_inv_def)
  from assms consider "headers_to_process s = [(''b.h'', CHR 0x22)]"
    | "headers_to_process s = [(''c.h'', CHR 0x22)]"
    by (auto simp: cycle_inv_def)
  then show ?thesis
  proof cases
    case 1
    from cycle_step_b[OF 1 sub, of pm m] obtain s' where
      "loop_body cycle_world pm m ''/proj'' s = Inr s'"
      "headers_to_process s' = [(''c.h'', CHR 0x22)]"
      "processed_local_headers s' = insert ''/proj/b.h'' (processed_local_headers s)"
      by blast
    with sub show ?thesis by (auto simp: cycle_inv_def)
  next
    case 2
    from cycle_step_c[OF 2 sub, of pm m] obtain s' where
      "loop_body cycle_world pm m ''/proj'' s = Inr s'"
      "headers_to_process s' = [(''b.h'', CHR 0x22)]"
      "processed_local_headers s' = insert ''/proj/c.h'' (processed_local_headers s)"
      by blast
    with sub show ?thesis by (auto simp: cycle_inv_def)
  qed
qed

lemma cycle_never_returns:
  assumes "resolve_loop w0 pm0 m0 r0 s0 = Some y0"
  shows "\<not> (w0 = cycle_world \<and> r0 = ''/proj'' \<and> cycle_inv s0)"
proof (rule resolve_loop.raw_induct
    [where P = "\<lambda>w pm m r s y. \<not> (w = cycle_world \<and> r = ''/proj'' \<and> cycle_inv s)",
     OF _ assms], goal_cases)
  case (1 f w pm m r s y)
  show ?case
  proof
    assume a: "w = cycle_world \<and> r = ''/proj'' \<and> cycle_inv s"
    then have ne: "headers_to_process s \<noteq> []" by (auto simp: cycle_inv_def)
    from a cycle_inv_step[of s pm m] obtain s' where
      s': "loop_body cycle_world pm m ''/proj'' s = Inr s'" "cycle_inv s'" by blast
    from 1(2) ne a s' have "f w pm m r s' = Some y" by simp
    from 1(1)[OF this] a s'(2) show False by simp
  qed
qed

text \<open>
  Claim C1. On the project with the mutual include cycle the run does not terminate: the
  resolved set holds absolute paths, the guards compare bare header names with it, and
  the two headers are queued again for ever.
\<close>

theorem mutual_include_cycle_never_terminates:
  "resolve cycle_world pm ''/proj/main.cpp'' c = None"
proof -
  have "cycle_inv (initial_state cycle_world ''/proj/main.cpp'' c)"
    by (simp add: cycle_inv_def initial_state_def cycle_world_facts)
  then have "resolve_loop cycle_world pm ''/proj/main.cpp'' ''/proj''
               (initial_state cycle_world ''/proj/main.cpp'' c) = None"
    using cycle_never_returns by (metis not_Some_eq)
  then show ?thesis
    by (simp add: resolve_def Let_def cycle_world_facts)
qed

lemma cycle_initial_worklist:
  "headers_to_process (initial_state cycle_world ''/proj/main.cpp'' c) = [(''b.h'', CHR 0x22)]"
  "processed_local_headers (initial_state cycle_world ''/proj/main.cpp'' c) = {}"
  by (simp_all add: initial_state_def cycle_world_facts)

text \<open>
  Claim C2. On the project with the mutual include cycle, after two iterations the header
  \<^verbatim>\<open>b.h\<close> is recorded as resolved (its absolute path is in the resolved set) and is
  nevertheless the entry of the worklist again; the third iteration does not discard it
  but resolves it once more and queues \<^verbatim>\<open>c.h\<close> again. The resolved set holds absolute
  paths, and both guards compare bare header names with it.
\<close>

theorem resolved_header_is_queued_and_processed_again:
  "\<exists>s1 s2 s3.
     loop_body cycle_world pm ''/proj/main.cpp'' ''/proj''
       (initial_state cycle_world ''/proj/main.cpp'' c) = Inr s1 \<and>
     loop_body cycle_world pm ''/proj/main.cpp'' ''/proj'' s1 = Inr s2 \<and>
     ''/proj/b.h'' \<in> processed_local_headers s2 \<and>
     headers_to_process s2 = [(''b.h'', CHR 0x22)] \<and>
     loop_body cycle_world pm ''/proj/main.cpp'' ''/proj'' s2 = Inr s3 \<and>
     headers_to_process s3 = [(''c.h'', CHR 0x22)]"
proof -
  let ?s0 = "initial_state cycle_world ''/proj/main.cpp'' c"
  from cycle_step_b[of ?s0 pm "''/proj/main.cpp''"] obtain s1 where
    s1: "loop_body cycle_world pm ''/proj/main.cpp'' ''/proj'' ?s0 = Inr s1"
        "headers_to_process s1 = [(''c.h'', CHR 0x22)]"
        "processed_local_headers s1 = {''/proj/b.h''}"
    by (auto simp: cycle_initial_worklist)
  from cycle_step_c[of s1 pm "''/proj/main.cpp''"] s1(2,3) obtain s2 where
    s2: "loop_body cycle_world pm ''/proj/main.cpp'' ''/proj'' s1 = Inr s2"
        "headers_to_process s2 = [(''b.h'', CHR 0x22)]"
        "processed_local_headers s2 = {''/proj/c.h'', ''/proj/b.h''}"
    by auto
  from cycle_step_b[of s2 pm "''/proj/main.cpp''"] s2(2,3) obtain s3 where
    s3: "loop_body cycle_world pm ''/proj/main.cpp'' ''/proj'' s2 = Inr s3"
        "headers_to_process s3 = [(''c.h'', CHR 0x22)]"
    by auto
  from s1 s2 s3 show ?thesis by auto
qed

subsection \<open>Lookup Cache\<close>

lemma arch_world_query:
  "arch_find_header_candidates arch_world ''foo.h'' = Inr []"
  by code_simp

text \<open>
  Claim C5. The first lookup of \<^verbatim>\<open>foo.h\<close> queries the backend, which succeeds with an empty
  candidate list, and stores that list; the cache then holds the entry; the second lookup
  of the same key finds it, takes the empty list for a miss, and queries the backend a
  second time.
\<close>

theorem cached_empty_candidate_list_queries_again:
  "find_header_candidates arch_world ''foo.h'' ArchManager empty_cache []
     = Inr ([], Cache_set_system_headers empty_cache ''foo.h'' [], [CandidatesFor ''foo.h''])
   \<and> Cache_get_system_headers (Cache_set_system_headers empty_cache ''foo.h'' []) ''foo.h''
     = Some []
   \<and> (\<exists>c'. find_header_candidates arch_world ''foo.h'' ArchManager
               (Cache_set_system_headers empty_cache ''foo.h'' []) [CandidatesFor ''foo.h'']
             = Inr ([], c', [CandidatesFor ''foo.h'', CandidatesFor ''foo.h'']))"
  by (simp add: find_header_candidates_def Let_def arch_world_query
      Cache_get_system_headers_def Cache_set_system_headers_def empty_cache_def)




section \<open>The theorems on concrete projects\<close>

lemma resolve_loop_step:
  "headers_to_process s \<noteq> [] \<Longrightarrow> loop_body w pm m r s = Inr s' \<Longrightarrow>
   resolve_loop w pm m r s = resolve_loop w pm m r s'"
  by (subst resolve_loop.simps) simp

lemma resolve_loop_done:
  "headers_to_process s = [] \<Longrightarrow> resolve_loop w pm m r s = Some (Inr s)"
  by (subst resolve_loop.simps) simp

lemma example_world_facts:
  "extract_headers_from_file example_world ''/proj/main.cpp''
     = [(''util.h'', CHR 0x22), (''vector'', CHR ''<'')]"
  "extract_headers_from_file example_world ''/proj/util.h'' = [(''string'', CHR ''<'')]"
  "find_local_file example_world ''util.h'' ''/proj'' = Some ''/proj/util.h''"
  "os_path_exists example_world ''/proj/util.cpp'' = False"
  "os_path_dirname ''/proj/util.h'' = ''/proj''"
  "os_path_dirname ''/proj/main.cpp'' = ''/proj''"
  "os_path_splitext ''/proj/util.h'' = (''/proj/util'', ''.h'')"
  "''util.h'' \<notin> CPP_STANDARD_HEADERS"
  "''vector'' \<in> CPP_STANDARD_HEADERS"
  "''string'' \<in> CPP_STANDARD_HEADERS"
  by code_simp+

lemma example_world_abspath: "os_path_abspath example_world = (\<lambda>path. path)"
  by (simp add: example_world_def project_world_def)

lemma example_first_iteration:
  "loop_body example_world pm ''/proj/main.cpp'' ''/proj''
     (initial_state example_world ''/proj/main.cpp'' disabled_cache)
   = Inr (example_state [(''vector'', CHR ''<''), (''string'', CHR ''<'')])"
  by (simp add: loop_body_def local_header_step_def Let_def push_new_header_def
      initial_state_def example_state_def example_world_facts example_world_abspath)

theorem standard_header_never_queries_backend_witness:
  "''vector'' \<in> CPP_STANDARD_HEADERS
   \<and> loop_body example_world DebianManager ''/proj/main.cpp'' ''/proj''
        (example_state [(''vector'', CHR ''<''), (''string'', CHR ''<'')])
      = Inr (example_state [(''string'', CHR ''<'')])
   \<and> resolve example_world DebianManager ''/proj/main.cpp'' disabled_cache
      = Some (Inr (example_state []))
   \<and> CandidatesFor ''vector'' \<notin> set (backend_calls (example_state []))"
proof -
  let ?w = example_world and ?m = "''/proj/main.cpp''" and ?r = "''/proj''"
  let ?s0 = "initial_state example_world ''/proj/main.cpp'' disabled_cache"
  let ?s1 = "example_state [(''vector'', CHR ''<''), (''string'', CHR ''<'')]"
  let ?s2 = "example_state [(''string'', CHR ''<'')]"
  let ?s3 = "example_state []"
  have v: "''vector'' \<in> CPP_STANDARD_HEADERS" and s: "''string'' \<in> CPP_STANDARD_HEADERS"
    by (rule example_world_facts)+
  note tv = standard_header_never_queries_backend
              [OF v, of ?s1 "CHR ''<''" "[(''string'', CHR ''<'')]" ?w DebianManager ?m ?r
                 disabled_cache ?s3 ?m]
  note ts = standard_header_never_queries_backend
              [OF s, of ?s2 "CHR ''<''" "[]" ?w DebianManager ?m ?r disabled_cache ?s3 ?m]
  have b1: "loop_body ?w DebianManager ?m ?r ?s0 = Inr ?s1"
    by (rule example_first_iteration)
  have b2: "loop_body ?w DebianManager ?m ?r ?s1 = Inr ?s2"
    using tv by (simp add: example_state_def)
  have b3: "loop_body ?w DebianManager ?m ?r ?s2 = Inr ?s3"
    using ts by (simp add: example_state_def)
  have "resolve_loop ?w DebianManager ?m ?r ?s0 = resolve_loop ?w DebianManager ?m ?r ?s1"
    by (rule resolve_loop_step[OF _ b1]) (simp add: initial_state_def example_world_facts)
  also have "\<dots> = resolve_loop ?w DebianManager ?m ?r ?s2"
    by (rule resolve_loop_step[OF _ b2]) (simp add: example_state_def)
  also have "\<dots> = resolve_loop ?w DebianManager ?m ?r ?s3"
    by (rule resolve_loop_step[OF _ b3]) (simp add: example_state_def)
  also have "\<dots> = Some (Inr ?s3)"
    by (rule resolve_loop_done) (simp add: example_state_def)
  finally have run: "resolve ?w DebianManager ?m disabled_cache = Some (Inr ?s3)"
    by (simp add: resolve_def Let_def example_world_abspath example_world_facts)
  from tv run have "CandidatesFor ''vector'' \<notin> set (backend_calls ?s3)" by blast
  with v b2 run show ?thesis by blast
qed

lemma toolchain_world_facts:
  "extract_headers_from_file toolchain_world ''/proj/main.cpp'' = [(''stdio_ext.h'', CHR ''<'')]"
  "os_path_dirname ''/proj/main.cpp'' = ''/proj''"
  "''stdio_ext.h'' \<notin> CPP_STANDARD_HEADERS"
  "ignored_package ''libc6-dev''"
  by code_simp+

lemma toolchain_world_query:
  "debian_find_header_candidates toolchain_world ''stdio_ext.h'' = Inr [libc_candidate]"
  "debian_find_package_info toolchain_world ''libc6-dev'' = Inr ([''/usr/include''], [''c''])"
  by code_simp+

lemma toolchain_world_abspath: "os_path_abspath toolchain_world = (\<lambda>path. path)"
  by (simp add: toolchain_world_def project_world_def)

lemma toolchain_candidates:
  "find_header_candidates toolchain_world ''stdio_ext.h'' DebianManager disabled_cache []
   = Inr ([libc_candidate], disabled_cache, [CandidatesFor ''stdio_ext.h''])"
  by (simp add: find_header_candidates_def Let_def toolchain_world_query
      Cache_get_system_headers_def Cache_set_system_headers_def disabled_cache_def)

theorem toolchain_package_never_contributes_witness:
  "ignored_package ''libc6-dev''
   \<and> system_header_step toolchain_world DebianManager ''/proj/main.cpp'' ''stdio_ext.h''
        (toolchain_state [] [])
      = Inr (toolchain_state [] [CandidatesFor ''stdio_ext.h''])
   \<and> resolve toolchain_world DebianManager ''/proj/main.cpp'' disabled_cache
      = Some (Inr (toolchain_state [] [CandidatesFor ''stdio_ext.h'']))
   \<and> ''libc6-dev'' \<notin> processed_system_packages (toolchain_state [] [CandidatesFor ''stdio_ext.h''])
   \<and> InfoFor ''libc6-dev'' \<notin> set (backend_calls (toolchain_state [] [CandidatesFor ''stdio_ext.h'']))"
proof -
  let ?w = toolchain_world and ?m = "''/proj/main.cpp''" and ?r = "''/proj''"
  let ?s0 = "initial_state toolchain_world ''/proj/main.cpp'' disabled_cache"
  let ?p = "toolchain_state [] []"
  let ?t = "toolchain_state [] [CandidatesFor ''stdio_ext.h'']"
  have ig: "ignored_package ''libc6-dev''" by (rule toolchain_world_facts)
  note th = toolchain_package_never_contributes
              [OF ig, of ?w "''stdio_ext.h''" DebianManager ?p libc_candidate "[]"
                 disabled_cache "[CandidatesFor ''stdio_ext.h'']" ?m ?r disabled_cache ?t ?m]
  have c: "find_header_candidates ?w ''stdio_ext.h'' DebianManager (cache ?p) (backend_calls ?p)
           = Inr (libc_candidate # [], disabled_cache, [CandidatesFor ''stdio_ext.h''])"
    by (simp add: toolchain_state_def toolchain_candidates)
  have b: "package (select_best_candidate ?w (analyze_source_for_symbols ?w ?m) libc_candidate [])
           = ''libc6-dev''"
    by (simp add: select_best_candidate_def libc_candidate_def)
  from th c b have
    st: "system_header_step ?w DebianManager ?m ''stdio_ext.h'' ?p
         = Inr (?p\<lparr>cache := disabled_cache, backend_calls := [CandidatesFor ''stdio_ext.h'']\<rparr>)"
    by blast
  then have st': "system_header_step ?w DebianManager ?m ''stdio_ext.h'' ?p = Inr ?t"
    by (simp add: toolchain_state_def)
  have s0: "?s0 = toolchain_state [(''stdio_ext.h'', CHR ''<'')] []"
    by (simp add: initial_state_def toolchain_state_def toolchain_world_facts)
  have p: "?s0\<lparr>headers_to_process := []\<rparr> = ?p"
    by (simp add: s0 toolchain_state_def)
  have b1: "loop_body ?w DebianManager ?m ?r ?s0 = Inr ?t"
    using st' p
    by (simp add: loop_body_def Let_def toolchain_world_facts s0 toolchain_state_def)
  have "resolve_loop ?w DebianManager ?m ?r ?s0 = resolve_loop ?w DebianManager ?m ?r ?t"
    by (rule resolve_loop_step[OF _ b1]) (simp add: s0 toolchain_state_def)
  also have "\<dots> = Some (Inr ?t)"
    by (rule resolve_loop_done) (simp add: toolchain_state_def)
  finally have run: "resolve ?w DebianManager ?m disabled_cache = Some (Inr ?t)"
    by (simp add: resolve_def Let_def toolchain_world_abspath toolchain_world_facts)
  from th run have "''libc6-dev'' \<notin> processed_system_packages ?t
                    \<and> InfoFor ''libc6-dev'' \<notin> set (backend_calls ?t)" by blast
  with ig st' run show ?thesis by blast
qed








end
